theory Spec2Isabelle
  imports Complex_Main
begin

section \<open>The escape-time renderer of src/fractals/mandelbrot.js\<close>

text \<open>
  The sketch keeps three module-level variables: \<open>appState\<close> (the configuration),
  \<open>FIELD\<close> (the sampled plane) and the pixel array of the drawing surface. They are
  modelled as one record that every function takes and returns.

  JavaScript numbers are modelled as mathematical reals (integers where the source
  coerces with \<open>|0\<close>), so the rounding of IEEE doubles is outside the model. Where
  the source can produce a value that is not a finite number, from \<open>Math.log\<close> or
  from a constant that was never set, the model says so: such values have the type
  \<open>number\<close> below.
\<close>

subsection \<open>Complex numbers\<close>

text \<open>
  Modelled from the spec: the class \<open>Complex\<close> imported from \<open>../complex\<close>, whose
  file is not among the sources. Section 4.1 of the specification gives its operations:
  addition, multiplication \<open>(ac - bd, ad + bc)\<close>, the squared modulus, and the modulus
  as the square root of the squared modulus. Instances are immutable, so
  \<open>Complex.of(Z)\<close> (a copy) is the value itself.
\<close>

record Complex_t =
  re :: real
  im :: real

definition Complex_of :: "real \<Rightarrow> real \<Rightarrow> Complex_t" where
  "Complex_of a c = \<lparr>re = a, im = c\<rparr>"

definition Complex_copy :: "Complex_t \<Rightarrow> Complex_t" where
  "Complex_copy Z = Complex_of (re Z) (im Z)"

definition add :: "Complex_t \<Rightarrow> Complex_t \<Rightarrow> Complex_t" where
  "add Z W = \<lparr>re = re Z + re W, im = im Z + im W\<rparr>"

definition multiply :: "Complex_t \<Rightarrow> Complex_t \<Rightarrow> Complex_t" where
  "multiply Z W = \<lparr>re = re Z * re W - im Z * im W, im = re Z * im W + im Z * re W\<rparr>"

definition modulusSquared :: "Complex_t \<Rightarrow> real" where
  "modulusSquared Z = re Z * re Z + im Z * im Z"

definition modulus :: "Complex_t \<Rightarrow> real" where
  "modulus Z = sqrt (modulusSquared Z)"

subsection \<open>Library functions of p5.js\<close>

text \<open>
  \<open>p5.map(n, start1, stop1, start2, stop2)\<close> without its bounds flag, and
  \<open>p5.norm(n, start, stop)\<close>, which is \<open>map(n, start, stop, 0, 1)\<close>. The source
  wraps \<open>p5.map\<close> in a memoiser under the name \<open>scale\<close>; a cache does not change
  the value of a pure function.
\<close>

definition p5_map :: "real \<Rightarrow> real \<Rightarrow> real \<Rightarrow> real \<Rightarrow> real \<Rightarrow> real" where
  "p5_map n start1 stop1 start2 stop2 =
     (n - start1) / (stop1 - start1) * (stop2 - start2) + start2"

definition p5_norm :: "real \<Rightarrow> real \<Rightarrow> real \<Rightarrow> real" where
  "p5_norm n start stop = p5_map n start stop 0 1"

definition scale :: "real \<Rightarrow> real \<Rightarrow> real \<Rightarrow> real \<Rightarrow> real \<Rightarrow> real" where
  "scale = p5_map"

subsection \<open>Integer coercion\<close>

text \<open>
  \<open>v|0\<close> converts \<open>v\<close> to a signed 32-bit integer: the fraction is dropped (towards
  zero) and the result wraps modulo \<open>2^32\<close>. A property that is absent from an object
  reads as \<open>undefined\<close>, which \<open>|0\<close> turns into 0; absent is \<open>None\<close> here.
\<close>

definition wrap32 :: "int \<Rightarrow> int" where
  "wrap32 n = (let m = n mod 2 ^ 32 in if 2 ^ 31 \<le> m then m - 2 ^ 32 else m)"

definition toInt32 :: "real \<Rightarrow> int" where
  "toInt32 v = wrap32 (if v < 0 then \<lceil>v\<rceil> else \<lfloor>v\<rfloor>)"

definition bitor0 :: "real option \<Rightarrow> int" where
  "bitor0 v = (case v of None \<Rightarrow> 0 | Some r \<Rightarrow> toInt32 r)"

subsection \<open>Numbers that need not be finite\<close>

text \<open>
  \<open>Math.log\<close> gives NaN below zero and \<open>-Infinity\<close> at zero; the arithmetic that
  follows it in the source (a division by \<open>log2\<close>, a subtraction from the iteration
  count) propagates NaN and the infinities as IEEE arithmetic does.
\<close>

datatype number = Finite real | NaN | PosInfinity | NegInfinity

fun Math_log :: "number \<Rightarrow> number" where
  "Math_log (Finite v) = (if v < 0 then NaN else if v = 0 then NegInfinity else Finite (ln v))"
| "Math_log NaN = NaN"
| "Math_log PosInfinity = PosInfinity"
| "Math_log NegInfinity = NaN"

fun divide_number :: "number \<Rightarrow> real \<Rightarrow> number" where
  "divide_number (Finite v) d =
     (if d = 0 then (if v = 0 then NaN else if 0 < v then PosInfinity else NegInfinity)
      else Finite (v / d))"
| "divide_number NaN d = NaN"
| "divide_number PosInfinity d = (if d < 0 then NegInfinity else PosInfinity)"
| "divide_number NegInfinity d = (if d < 0 then PosInfinity else NegInfinity)"

fun subtract_number :: "real \<Rightarrow> number \<Rightarrow> number" where
  "subtract_number a (Finite v) = Finite (a - v)"
| "subtract_number a NaN = NaN"
| "subtract_number a PosInfinity = NegInfinity"
| "subtract_number a NegInfinity = PosInfinity"

text \<open>
  The pixel array of the canvas is a \<open>Uint8ClampedArray\<close>: a store converts the value
  to a byte, NaN to 0, anything else to the nearest integer in \<open>0..255\<close> with ties
  to the even one, and a store outside the array does nothing.
\<close>

definition roundHalfEven :: "real \<Rightarrow> int" where
  "roundHalfEven v =
     (let f = \<lfloor>v\<rfloor>
      in if v - real_of_int f < 1 / 2 then f
         else if 1 / 2 < v - real_of_int f then f + 1
         else if even f then f else f + 1)"

fun ToUint8Clamp :: "number \<Rightarrow> nat" where
  "ToUint8Clamp (Finite v) = (if v \<le> 0 then 0 else if 255 \<le> v then 255 else nat (roundHalfEven v))"
| "ToUint8Clamp NaN = 0"
| "ToUint8Clamp PosInfinity = 255"
| "ToUint8Clamp NegInfinity = 0"

definition storePixel :: "nat list \<Rightarrow> int \<Rightarrow> number \<Rightarrow> nat list" where
  "storePixel px i v =
     (if 0 \<le> i \<and> i < int (length px) then px[nat i := ToUint8Clamp v] else px)"

subsection \<open>State\<close>

record HSB =
  h :: int
  s :: int
  b :: int

record AppState =
  maxIters :: int
  escapeRadius :: int
  escapeColoring :: bool
  zoomX :: real
  zoomY :: real
  hsb :: HSB
  isJulia :: "bool option"
  juliaConstant :: "real option"
  reset :: bool

record Sketch =
  appState :: AppState
  FIELD :: "Complex_t list list"
  pixels :: "nat list"

text \<open>
  \<open>isJulia\<close> and \<open>juliaConstant\<close> are \<open>None\<close> when the property holds
  \<open>undefined\<close>, which a patch without the field leaves behind. \<open>pixels\<close> is the byte
  array of the canvas.
\<close>

datatype error = TypeError | CannotColorFractal

definition WIDTH :: nat where
  "WIDTH = 512"

definition HEIGHT :: nat where
  "HEIGHT = 512"

definition log2 :: real where
  "log2 = ln 2"

definition defaultState :: AppState where
  "defaultState =
     \<lparr>maxIters = 400, escapeRadius = 20, escapeColoring = False,
      zoomX = - 5 / 2, zoomY = 5 / 2, hsb = \<lparr>h = 0, s = 0, b = 0\<rparr>,
      isJulia = Some False, juliaConstant = Some (57 / 200), reset = False\<rparr>"

definition getState :: "bool \<Rightarrow> Sketch \<Rightarrow> AppState" where
  "getState getDefault sk = (if getDefault then defaultState else appState sk)"

subsection \<open>The plane sampler\<close>

definition createComplexPlane :: "real \<Rightarrow> real \<Rightarrow> Complex_t list list" where
  "createComplexPlane zX zY =
     map (\<lambda>i. map (\<lambda>j. Complex_of (scale (real i) 0 (real WIDTH) zX zY)
                                   (scale (real j) 0 (real HEIGHT) zX zY))
                   [0..<HEIGHT])
         [0..<WIDTH]"

text \<open>
  \<open>p5.setup\<close>: the configuration is a copy of the defaults, the field is sampled from
  its window, and \<open>loadPixels\<close> reads the pixel array of the fresh canvas: four bytes
  for each of its \<open>WIDTH \<times> HEIGHT\<close> pixels (at pixel density 1), all zero.
\<close>

definition loadPixels :: "nat list" where
  "loadPixels = replicate (4 * WIDTH * HEIGHT) 0"

definition p5_setup :: Sketch where
  "p5_setup =
     (let st = defaultState
      in \<lparr>appState = st, FIELD = createComplexPlane (zoomX st) (zoomY st),
          pixels = loadPixels\<rparr>)"

subsection \<open>The escape-time loop\<close>

text \<open>
  The \<open>while\<close> loop of \<open>renderMandelbrotSet\<close>: the guard is tested before every
  step, the first included. It ends because \<open>maxIters - itr\<close> decreases.
\<close>

function whileLoop :: "int \<Rightarrow> int \<Rightarrow> Complex_t \<Rightarrow> Complex_t \<Rightarrow> int \<Rightarrow> Complex_t \<times> int" where
  "whileLoop R M C Z itr =
     (if modulus Z < real_of_int R \<and> itr < M
      then whileLoop R M C (add (multiply Z Z) C) (itr + 1)
      else (Z, itr))"
  by pat_completeness auto
termination
  by (relation "measure (\<lambda>(R, M, C, Z, itr). nat (M - itr))") auto

declare whileLoop.simps [simp del]

text \<open>
  A \<open>Complex\<close> object as the sweep may hold it. \<open>Complex.of\<close> is handed
  \<open>state.juliaConstant\<close> as it is, \<open>undefined\<close> included; by section 4.1 of the
  specification the class has no error conditions, so the object is built, and every sum
  with an \<open>undefined\<close> part is NaN. \<open>NotNumeric\<close> stands for a value whose parts
  are \<open>undefined\<close> or NaN; its modulus is NaN, and a comparison with NaN is false.
\<close>

datatype Complex_obj = Numeric Complex_t | NotNumeric

definition Complex_of_parts :: "real option \<Rightarrow> real option \<Rightarrow> Complex_obj" where
  "Complex_of_parts a c =
     (case a of
        None \<Rightarrow> NotNumeric
      | Some x \<Rightarrow> (case c of None \<Rightarrow> NotNumeric | Some y \<Rightarrow> Numeric (Complex_of x y)))"

definition modulus_of :: "Complex_obj \<Rightarrow> number" where
  "modulus_of W = (case W of Numeric Z \<Rightarrow> Finite (modulus Z) | NotNumeric \<Rightarrow> NaN)"

definition juliaK :: "AppState \<Rightarrow> Complex_obj option" where
  "juliaK state =
     (if isJulia state = Some True
      then Some (Complex_of_parts (juliaConstant state) (juliaConstant state))
      else None)"

definition pixelConstant :: "Complex_obj option \<Rightarrow> Complex_t \<Rightarrow> Complex_obj" where
  "pixelConstant K Z = (case K of Some k \<Rightarrow> k | None \<Rightarrow> Numeric (Complex_copy Z))"

text \<open>
  One pixel of the sweep, from \<open>let Z = FIELD[x][y]\<close> to the end of the \<open>while\<close>
  loop. With a numeric constant it is the loop above. With a constant that is not
  numeric the guard is tested on the sample; if it holds, the one step taken leaves a
  \<open>Z\<close> that is not numeric, on which the guard fails.
\<close>

definition evaluate :: "AppState \<Rightarrow> Complex_obj option \<Rightarrow> Complex_t \<Rightarrow> Complex_obj \<times> int" where
  "evaluate state K Z =
     (case pixelConstant K Z of
        Numeric C \<Rightarrow>
          (case whileLoop (escapeRadius state) (maxIters state) C Z 0 of
             (Zf, itr) \<Rightarrow> (Numeric Zf, itr))
      | NotNumeric \<Rightarrow>
          (if modulus Z < real_of_int (escapeRadius state) \<and> 0 < maxIters state
           then (NotNumeric, 1)
           else (Numeric Z, 0)))"

text \<open>
  The source keeps no escape flag. The one used here is the negation of the first
  conjunct of the loop guard at the final \<open>Z\<close>: the loop was left on the modulus.
\<close>

definition escaped :: "AppState \<Rightarrow> Complex_obj \<times> int \<Rightarrow> bool" where
  "escaped state r =
     (case fst r of
        Numeric Z \<Rightarrow> \<not> modulus Z < real_of_int (escapeRadius state)
      | NotNumeric \<Rightarrow> True)"

text \<open>The recurrence on its own, for stating what the loop computes.\<close>

definition orbit :: "Complex_t \<Rightarrow> Complex_t \<Rightarrow> nat \<Rightarrow> Complex_t" where
  "orbit C Z n = ((\<lambda>W. add (multiply W W) C) ^^ n) Z"

subsection \<open>Colouring\<close>

definition colorValueOf :: "AppState \<Rightarrow> Complex_obj \<times> int \<Rightarrow> number" where
  "colorValueOf state r =
     (case r of (Z, itr) \<Rightarrow>
        if escapeColoring state \<and> itr = maxIters state then Finite 0
        else subtract_number (real_of_int itr)
               (divide_number (Math_log (Math_log (modulus_of Z))) log2))"

record NormedHSB =
  HUE :: real
  SATURATION :: real
  BRIGHTNESS :: real

definition getNormedHSB :: "HSB \<Rightarrow> real \<Rightarrow> NormedHSB" where
  "getNormedHSB c val =
     (let hh = real_of_int (h c) + val;
          ss = real_of_int (s c) + val;
          bb = real_of_int (b c) + val
      in \<lparr>HUE = (if hh \<le> 360 then hh else p5_norm hh 0 360),
          SATURATION = (if ss \<le> 100 then ss else p5_norm ss 0 100),
          BRIGHTNESS = (if bb \<le> 100 then bb else p5_norm bb 0 100)\<rparr>)"

text \<open>
  \<open>getNormedHSB\<close> at a value that need not be finite. NaN and \<open>Infinity\<close> fail the
  test \<open>h <= 360\<close>, and \<open>p5.norm\<close> returns them as they are; \<open>-Infinity\<close> passes
  the test. Every channel is then that value.
\<close>

definition getNormedHSB_number :: "HSB \<Rightarrow> number \<Rightarrow> number \<times> number \<times> number" where
  "getNormedHSB_number c val =
     (case val of
        Finite v \<Rightarrow>
          (let n = getNormedHSB c v
           in (Finite (HUE n), Finite (SATURATION n), Finite (BRIGHTNESS n)))
      | NaN \<Rightarrow> (NaN, NaN, NaN)
      | PosInfinity \<Rightarrow> (PosInfinity, PosInfinity, PosInfinity)
      | NegInfinity \<Rightarrow> (NegInfinity, NegInfinity, NegInfinity))"

fun colorLoop :: "HSB \<Rightarrow> (number \<times> int) list \<Rightarrow> nat list \<Rightarrow> nat list" where
  "colorLoop hsbObj [] px = px"
| "colorLoop hsbObj ((cv, pixel) # rest) px =
     (case getNormedHSB_number hsbObj cv of
        (hu, sa, br) \<Rightarrow>
          colorLoop hsbObj rest
            (storePixel
               (storePixel
                  (storePixel (storePixel px pixel hu) (pixel + 1) sa)
                  (pixel + 2) br)
               (pixel + 3) (Finite 250)))"

definition colorFractal ::
  "HSB \<Rightarrow> number list \<Rightarrow> int list \<Rightarrow> nat list \<Rightarrow> error option \<times> nat list" where
  "colorFractal hsbObj colorValues pxs px =
     (if length colorValues \<noteq> length pxs then (Some CannotColorFractal, px)
      else (None, colorLoop hsbObj (zip colorValues pxs) px))"

subsection \<open>The render sweep\<close>

text \<open>
  \<open>(x + (y << 9)) << 2\<close>: both shifts work on signed 32-bit integers. Reading
  \<open>FIELD[x][y]\<close> beyond the end of a row gives \<open>undefined\<close>, and the call of
  \<open>modulus\<close> on it throws.
\<close>

definition pixelIndex :: "nat \<Rightarrow> nat \<Rightarrow> int" where
  "pixelIndex x y = wrap32 ((int x + wrap32 (wrap32 (int y) * 2 ^ 9)) * 2 ^ 2)"

definition fieldAt :: "Complex_t list list \<Rightarrow> nat \<Rightarrow> nat \<Rightarrow> Complex_t option" where
  "fieldAt F x y = (if x < length F \<and> y < length (F ! x) then Some (F ! x ! y) else None)"

fun innerLoop ::
  "AppState \<Rightarrow> Complex_obj option \<Rightarrow> Complex_t list list \<Rightarrow> nat \<Rightarrow> nat list \<Rightarrow>
   number list \<times> int list \<Rightarrow> error + number list \<times> int list" where
  "innerLoop state K F x [] acc = Inr acc"
| "innerLoop state K F x (y # ys) acc =
     (case fieldAt F x y of
        None \<Rightarrow> Inl TypeError
      | Some Z \<Rightarrow>
          innerLoop state K F x ys
            (fst acc @ [colorValueOf state (evaluate state K Z)],
             snd acc @ [pixelIndex x y]))"

fun outerLoop ::
  "AppState \<Rightarrow> Complex_obj option \<Rightarrow> Complex_t list list \<Rightarrow> nat list \<Rightarrow> nat \<Rightarrow>
   number list \<times> int list \<Rightarrow> error + number list \<times> int list" where
  "outerLoop state K F [] len acc = Inr acc"
| "outerLoop state K F (x # xs) len acc =
     (case innerLoop state K F x [0..<len] acc of
        Inl e \<Rightarrow> Inl e
      | Inr acc' \<Rightarrow> outerLoop state K F xs len acc')"

definition renderMandelbrotSet :: "Sketch \<Rightarrow> error option \<times> Sketch" where
  "renderMandelbrotSet sk =
     (let state = getState False sk;
          K = juliaK state;
          len = length (FIELD sk)
      in case outerLoop state K (FIELD sk) [0..<len] len ([], []) of
           Inl e \<Rightarrow> (Some e, sk)
         | Inr (colorValues, pxs) \<Rightarrow>
             (case colorFractal (hsb state) colorValues pxs (pixels sk) of
                (e, px) \<Rightarrow> (e, sk\<lparr>pixels := px\<rparr>)))"

subsection \<open>Updating the configuration\<close>

text \<open>
  The object handed to \<open>p5.update\<close>. Every property the source reads is a field,
  \<open>None\<close> when the object lacks it; \<open>reset_u\<close> is the truthiness of \<open>update.reset\<close>.
  \<open>escapeColoring_u\<close> and \<open>extra\<close> stand for properties the source never reads.
\<close>

record HSB_u =
  hue :: "real option"
  saturation :: "real option"
  brightness :: "real option"

record Update =
  reset_u :: bool
  zoomX_u :: "real option"
  zoomY_u :: "real option"
  iterations :: "real option"
  bound :: "real option"
  isJulia_u :: "bool option"
  juliaConstant_u :: "real option"
  hsb_u :: "HSB_u option"
  escapeColoring_u :: "bool option"
  extra :: "(string \<times> real) list"

definition getField ::
  "real \<Rightarrow> real \<Rightarrow> bool option \<Rightarrow> Sketch \<Rightarrow> Complex_t list list \<times> Sketch" where
  "getField delta_x delta_y isJ sk =
     (if zoomX (appState sk) \<noteq> delta_x \<or>
         zoomY (appState sk) \<noteq> delta_y \<or>
         isJulia (appState sk) \<noteq> isJ
      then (let sk' = sk\<lparr>appState := (appState sk)\<lparr>zoomX := delta_x, zoomY := delta_y\<rparr>\<rparr>
            in (createComplexPlane (zoomX (appState sk')) (zoomY (appState sk')), sk'))
      else (FIELD sk, sk))"

text \<open>
  Without a reset, the assignments run in the source's order; building the new
  \<open>hsb\<close> object reads \<open>update.hsb.hue\<close> and throws when \<open>update.hsb\<close> is absent, after
  the earlier assignments have taken place.
\<close>

definition setState :: "Update \<Rightarrow> Sketch \<Rightarrow> error option \<times> Sketch" where
  "setState upd sk =
     (if reset_u upd then (None, sk\<lparr>appState := getState True sk\<rparr>)
      else
        let zX = real_of_int (bitor0 (zoomX_u upd)) * (1 / 100);
            zY = real_of_int (bitor0 (zoomY_u upd)) * (1 / 100);
            (F, sk1) = getField zX zY (isJulia_u upd) sk;
            sk2 = sk1\<lparr>FIELD := F\<rparr>;
            sk3 = sk2\<lparr>appState := (appState sk2)
                     \<lparr>maxIters := bitor0 (iterations upd),
                      escapeRadius := bitor0 (bound upd),
                      isJulia := isJulia_u upd,
                      juliaConstant := juliaConstant_u upd\<rparr>\<rparr>
        in case hsb_u upd of
             None \<Rightarrow> (Some TypeError, sk3)
           | Some c \<Rightarrow>
               (None, sk3\<lparr>appState := (appState sk3)
                         \<lparr>hsb := \<lparr>h = bitor0 (hue c),
                                  s = bitor0 (saturation c),
                                  b = bitor0 (brightness c)\<rparr>\<rparr>\<rparr>))"

definition update :: "Update \<Rightarrow> Sketch \<Rightarrow> error option \<times> Sketch" where
  "update newState sk =
     (case setState newState sk of
        (Some e, sk') \<Rightarrow> (Some e, sk')
      | (None, sk') \<Rightarrow> renderMandelbrotSet sk')"

section \<open>Properties\<close>

subsection \<open>The escape-time loop\<close>

lemma modulusSquared_nonneg: "0 \<le> modulusSquared Z"
  by (simp add: modulusSquared_def)

lemma modulus_nonneg: "0 \<le> modulus Z"
  by (simp add: modulus_def modulusSquared_nonneg)

lemma modulus_less_iff:
  assumes "0 < r"
  shows "modulus Z < r \<longleftrightarrow> modulusSquared Z < r\<^sup>2"
proof
  assume "modulus Z < r"
  then have "sqrt (modulusSquared Z) < sqrt (r\<^sup>2)"
    using assms by (simp add: modulus_def)
  then show "modulusSquared Z < r\<^sup>2"
    by (simp only: real_sqrt_less_iff)
next
  assume "modulusSquared Z < r\<^sup>2"
  then show "modulus Z < r"
    using assms by (simp add: modulus_def real_less_lsqrt)
qed

lemma orbit_0: "orbit C Z 0 = Z"
  by (simp add: orbit_def)

lemma orbit_shift: "orbit C (add (multiply Z Z) C) n = orbit C Z (Suc n)"
proof -
  let ?f = "\<lambda>W. add (multiply W W) C"
  have "(?f ^^ n) (?f Z) = ?f ((?f ^^ n) Z)"
    by (rule funpow_swap1 [symmetric])
  then show ?thesis by (simp add: orbit_def)
qed

lemma whileLoop_orbit:
  "itr \<le> M \<Longrightarrow>
   \<exists>n. whileLoop R M C Z itr = (orbit C Z n, itr + int n) \<and>
       (\<not> modulus (orbit C Z n) < real_of_int R \<or> itr + int n = M) \<and>
       (\<forall>k<n. modulus (orbit C Z k) < real_of_int R \<and> itr + int k < M)"
proof (induction R M C Z itr rule: whileLoop.induct)
  case (1 R M C Z itr)
  show ?case
  proof (cases "modulus Z < real_of_int R \<and> itr < M")
    case False
    then have "whileLoop R M C Z itr = (Z, itr)"
      by (subst whileLoop.simps) auto
    with False "1.prems" have
      "whileLoop R M C Z itr = (orbit C Z 0, itr + int 0) \<and>
       (\<not> modulus (orbit C Z 0) < real_of_int R \<or> itr + int 0 = M) \<and>
       (\<forall>k<0. modulus (orbit C Z k) < real_of_int R \<and> itr + int k < M)"
      by (auto simp: orbit_0)
    then show ?thesis by blast
  next
    case True
    then have le: "itr + 1 \<le> M" by simp
    from "1.IH" [OF True le] obtain n where
      n: "whileLoop R M C (add (multiply Z Z) C) (itr + 1)
            = (orbit C (add (multiply Z Z) C) n, itr + 1 + int n)"
         "\<not> modulus (orbit C (add (multiply Z Z) C) n) < real_of_int R \<or> itr + 1 + int n = M"
         "\<forall>k<n. modulus (orbit C (add (multiply Z Z) C) k) < real_of_int R \<and> itr + 1 + int k < M"
      by blast
    have eq: "whileLoop R M C Z itr = (orbit C Z (Suc n), itr + int (Suc n))"
      using True n(1) by (subst whileLoop.simps) (simp add: orbit_shift)
    have stop: "\<not> modulus (orbit C Z (Suc n)) < real_of_int R \<or> itr + int (Suc n) = M"
      using n(2) by (auto simp: orbit_shift)
    have before: "\<forall>k<Suc n. modulus (orbit C Z k) < real_of_int R \<and> itr + int k < M"
    proof (intro allI impI)
      fix k assume "k < Suc n"
      show "modulus (orbit C Z k) < real_of_int R \<and> itr + int k < M"
      proof (cases k)
        case 0
        with True show ?thesis by (simp add: orbit_0)
      next
        case (Suc j)
        with \<open>k < Suc n\<close> have "j < n" by simp
        with n(3) have "modulus (orbit C (add (multiply Z Z) C) j) < real_of_int R \<and> itr + 1 + int j < M"
          by blast
        with Suc show ?thesis by (simp add: orbit_shift)
      qed
    qed
    from eq stop before show ?thesis by blast
  qed
qed



text \<open>
  C1. With \<open>maxIters > 0\<close> and \<open>escapeRadius > 0\<close>, the evaluator runs the recurrence
  \<open>Z \<leftarrow> Z\<cdot>Z + C\<close> from the sample, where \<open>C\<close> is the sample itself in the
  standard variant and the fixed constant in the Julia variant (a number \<open>c\<close> for both
  of its parts), counting the steps. It returns the orbit's point at the first index
  \<open>n\<close> where the squared modulus has reached the squared escape radius or \<open>n\<close>
  equals \<open>maxIters\<close>, together with \<open>n\<close>; at no earlier index does either condition
  hold (the sample itself is index 0). The escape flag holds exactly when the modulus
  condition holds at the end.
\<close>

theorem evaluate_stops_at_first_stop_index:
  assumes "0 < maxIters state" and "0 < escapeRadius state"
    and "isJulia state = Some True \<longrightarrow> juliaConstant state = Some c"
    and "C = (if isJulia state = Some True then \<lparr>re = c, im = c\<rparr> else Z0)"
  shows "pixelConstant (juliaK state) Z0 = Numeric C \<and>
         (\<exists>n. evaluate state (juliaK state) Z0 = (Numeric (orbit C Z0 n), int n) \<and>
              ((real_of_int (escapeRadius state))\<^sup>2 \<le> modulusSquared (orbit C Z0 n) \<or>
               int n = maxIters state) \<and>
              (\<forall>k<n. modulusSquared (orbit C Z0 k) < (real_of_int (escapeRadius state))\<^sup>2 \<and>
                      int k < maxIters state) \<and>
              (escaped state (evaluate state (juliaK state) Z0) \<longleftrightarrow>
               (real_of_int (escapeRadius state))\<^sup>2 \<le> modulusSquared (orbit C Z0 n)))"
proof -
  let ?R = "real_of_int (escapeRadius state)"
  have pos: "0 < ?R" using assms(2) by simp
  have iff: "modulus W < ?R \<longleftrightarrow> modulusSquared W < ?R\<^sup>2" for W
    by (rule modulus_less_iff [OF pos])
  have const: "pixelConstant (juliaK state) Z0 = Numeric C"
    using assms(3,4)
    by (simp add: pixelConstant_def juliaK_def Complex_of_parts_def Complex_of_def
        Complex_copy_def)
  have "0 \<le> maxIters state" using assms(1) by simp
  from whileLoop_orbit [OF this, of "escapeRadius state" C Z0]
  obtain n where
    n: "whileLoop (escapeRadius state) (maxIters state) C Z0 0 = (orbit C Z0 n, 0 + int n)"
       "\<not> modulus (orbit C Z0 n) < ?R \<or> 0 + int n = maxIters state"
       "\<forall>k<n. modulus (orbit C Z0 k) < ?R \<and> 0 + int k < maxIters state"
    by blast
  have ev: "evaluate state (juliaK state) Z0 = (Numeric (orbit C Z0 n), int n)"
    using n(1) by (simp add: evaluate_def const)
  have stop: "?R\<^sup>2 \<le> modulusSquared (orbit C Z0 n) \<or> int n = maxIters state"
    using n(2) by (auto simp: iff)
  have before: "\<forall>k<n. modulusSquared (orbit C Z0 k) < ?R\<^sup>2 \<and> int k < maxIters state"
    using n(3) by (auto simp: iff)
  have flag: "escaped state (evaluate state (juliaK state) Z0) \<longleftrightarrow>
              ?R\<^sup>2 \<le> modulusSquared (orbit C Z0 n)"
    by (auto simp: escaped_def ev iff)
  from const ev stop before flag show ?thesis by blast
qed

theorem evaluate_stops_at_first_stop_index_witness:
  "0 < maxIters defaultState \<and> 0 < escapeRadius defaultState \<and>
   pixelConstant (juliaK defaultState) \<lparr>re = 10, im = 10\<rparr> = Numeric \<lparr>re = 10, im = 10\<rparr> \<and>
   (\<exists>n. evaluate defaultState (juliaK defaultState) \<lparr>re = 10, im = 10\<rparr> =
          (Numeric (orbit \<lparr>re = 10, im = 10\<rparr> \<lparr>re = 10, im = 10\<rparr> n), int n)) \<and>
   isJulia (defaultState\<lparr>isJulia := Some True\<rparr>) = Some True \<and>
   juliaConstant (defaultState\<lparr>isJulia := Some True\<rparr>) = Some (57 / 200) \<and>
   (\<exists>n. evaluate (defaultState\<lparr>isJulia := Some True\<rparr>)
            (juliaK (defaultState\<lparr>isJulia := Some True\<rparr>)) \<lparr>re = 10, im = 10\<rparr> =
          (Numeric (orbit \<lparr>re = 57 / 200, im = 57 / 200\<rparr> \<lparr>re = 10, im = 10\<rparr> n), int n))"
proof -
  let ?Z = "\<lparr>re = 10, im = 10\<rparr> :: Complex_t"
  let ?J = "defaultState\<lparr>isJulia := Some True\<rparr>"
  have a: "0 < maxIters defaultState" by (simp add: defaultState_def)
  have r: "0 < escapeRadius defaultState" by (simp add: defaultState_def)
  have j: "isJulia defaultState = Some True \<longrightarrow> juliaConstant defaultState = Some 0"
    by (simp add: defaultState_def)
  have C: "?Z = (if isJulia defaultState = Some True then \<lparr>re = 0, im = 0\<rparr> else ?Z)"
    by (simp add: defaultState_def)
  note std = evaluate_stops_at_first_stop_index [OF a r j C]
  have a': "0 < maxIters ?J" by (simp add: defaultState_def)
  have r': "0 < escapeRadius ?J" by (simp add: defaultState_def)
  have t': "isJulia ?J = Some True" by simp
  have c': "juliaConstant ?J = Some (57 / 200)" by (simp add: defaultState_def)
  have j': "isJulia ?J = Some True \<longrightarrow> juliaConstant ?J = Some (57 / 200)"
    using c' by simp
  have C': "\<lparr>re = 57 / 200, im = 57 / 200\<rparr> =
            (if isJulia ?J = Some True then \<lparr>re = 57 / 200, im = 57 / 200\<rparr> else ?Z)"
    by simp
  note jul = evaluate_stops_at_first_stop_index [OF a' r' j' C']
  from std jul a r t' c' show ?thesis by blast
qed

lemma outside_10_210: "\<not> modulus \<lparr>re = 10, im = 210\<rparr> < real_of_int 20"
  by (simp add: modulus_less_iff modulusSquared_def)

lemma whileLoop_10_10:
  assumes "1 \<le> M"
  shows "whileLoop 20 M \<lparr>re = 10, im = 10\<rparr> \<lparr>re = 10, im = 10\<rparr> 0 = (\<lparr>re = 10, im = 210\<rparr>, 1)"
proof -
  let ?Z0 = "\<lparr>re = 10, im = 10\<rparr> :: Complex_t"
  let ?Z1 = "\<lparr>re = 10, im = 210\<rparr> :: Complex_t"
  have in0: "modulus ?Z0 < real_of_int 20"
    by (simp add: modulus_less_iff modulusSquared_def)
  have step: "add (multiply ?Z0 ?Z0) ?Z0 = ?Z1"
    by (simp add: add_def multiply_def)
  have "whileLoop 20 M ?Z0 ?Z1 (0 + 1) = (?Z1, 0 + 1)"
    using outside_10_210 by (subst whileLoop.simps) simp
  then show ?thesis
    using in0 assms by (subst whileLoop.simps) (simp add: step)
qed

text \<open>
  C9. For the sample \<open>10 + 10i\<close> with escape radius 20 in the standard variant and
  \<open>maxIters\<close> at least 1, the evaluator stops after one step, at \<open>10 + 210i\<close>, and
  the escape flag holds.
\<close>

theorem sample_10_10_escapes_after_one_step:
  assumes "escapeRadius state = 20" and "1 \<le> maxIters state"
    and "isJulia state \<noteq> Some True"
  shows "evaluate state (juliaK state) \<lparr>re = 10, im = 10\<rparr>
           = (Numeric \<lparr>re = 10, im = 210\<rparr>, 1) \<and>
         escaped state (evaluate state (juliaK state) \<lparr>re = 10, im = 10\<rparr>)"
proof -
  let ?Z0 = "\<lparr>re = 10, im = 10\<rparr> :: Complex_t"
  let ?Z1 = "\<lparr>re = 10, im = 210\<rparr> :: Complex_t"
  have C: "pixelConstant (juliaK state) ?Z0 = Numeric ?Z0"
    using assms(3) by (simp add: pixelConstant_def juliaK_def Complex_copy_def Complex_of_def)
  have ev: "evaluate state (juliaK state) ?Z0 = (Numeric ?Z1, 1)"
    using whileLoop_10_10 [OF assms(2)] by (simp add: evaluate_def C assms(1))
  moreover have "escaped state (Numeric ?Z1, 1)"
    using outside_10_210 by (simp add: escaped_def assms(1))
  ultimately show ?thesis by simp
qed

theorem sample_10_10_escapes_after_one_step_witness:
  "escapeRadius defaultState = 20 \<and> 1 \<le> maxIters defaultState \<and>
   isJulia defaultState \<noteq> Some True \<and>
   evaluate defaultState (juliaK defaultState) \<lparr>re = 10, im = 10\<rparr>
     = (Numeric \<lparr>re = 10, im = 210\<rparr>, 1) \<and>
   escaped defaultState (evaluate defaultState (juliaK defaultState) \<lparr>re = 10, im = 10\<rparr>)"
proof -
  have a: "escapeRadius defaultState = 20" by (simp add: defaultState_def)
  have c: "1 \<le> maxIters defaultState" by (simp add: defaultState_def)
  have d: "isJulia defaultState \<noteq> Some True" by (simp add: defaultState_def)
  from sample_10_10_escapes_after_one_step [OF a c d] show ?thesis using a c d by blast
qed

subsection \<open>The plane sampler\<close>

lemma length_createComplexPlane: "length (createComplexPlane zX zY) = WIDTH"
  by (simp add: createComplexPlane_def)

lemma createComplexPlane_nth:
  "i < WIDTH \<Longrightarrow> j < HEIGHT \<Longrightarrow>
   createComplexPlane zX zY ! i ! j =
     Complex_of (scale (real i) 0 (real WIDTH) zX zY) (scale (real j) 0 (real HEIGHT) zX zY)"
  by (simp add: createComplexPlane_def)

lemma length_createComplexPlane_row:
  "i < WIDTH \<Longrightarrow> length (createComplexPlane zX zY ! i) = HEIGHT"
  by (simp add: createComplexPlane_def)

text \<open>
  C8. The plane window of the source is the square from \<open>zoomX\<close> to \<open>zoomY\<close> on both
  axes, so \<open>zoomX\<close> is its lower bound in x and in y. For every pixel \<open>(i, j)\<close> of the
  field, the real part of the sample is \<open>zoomX\<close> when \<open>i = 0\<close>, and the imaginary part
  is \<open>zoomX\<close> when \<open>j = 0\<close>.
\<close>

theorem createComplexPlane_lower_edges:
  assumes "i < WIDTH" and "j < HEIGHT"
  shows "(i = 0 \<longrightarrow> re (createComplexPlane zX zY ! i ! j) = zX) \<and>
         (j = 0 \<longrightarrow> im (createComplexPlane zX zY ! i ! j) = zX)"
  using assms by (simp add: createComplexPlane_nth Complex_of_def scale_def p5_map_def)

theorem createComplexPlane_lower_edges_witness:
  "(0::nat) < WIDTH \<and> (7::nat) < HEIGHT \<and>
   re (createComplexPlane (- 5 / 2) (5 / 2) ! 0 ! 7) = - 5 / 2 \<and>
   im (createComplexPlane (- 5 / 2) (5 / 2) ! 7 ! 0) = - 5 / 2"
proof -
  have w0: "(0::nat) < WIDTH" and w7: "(7::nat) < WIDTH" by (simp_all add: WIDTH_def)
  have h0: "(0::nat) < HEIGHT" and h7: "(7::nat) < HEIGHT" by (simp_all add: HEIGHT_def)
  from createComplexPlane_lower_edges [OF w0 h7, of "- 5 / 2" "5 / 2"]
       createComplexPlane_lower_edges [OF w7 h0, of "- 5 / 2" "5 / 2"]
  show ?thesis using w0 h7 by simp
qed


subsection \<open>Colour normalisation\<close>

lemma p5_norm_0: "p5_norm v 0 m = v / m"
  by (simp add: p5_norm_def p5_map_def)

lemma getNormedHSB_HUE:
  "HUE (getNormedHSB c val) =
     (if real_of_int (h c) + val \<le> 360 then real_of_int (h c) + val
      else (real_of_int (h c) + val) / 360)"
  by (simp add: getNormedHSB_def Let_def p5_norm_0)

lemma getNormedHSB_SATURATION:
  "SATURATION (getNormedHSB c val) =
     (if real_of_int (s c) + val \<le> 100 then real_of_int (s c) + val
      else (real_of_int (s c) + val) / 100)"
  by (simp add: getNormedHSB_def Let_def p5_norm_0)

lemma getNormedHSB_BRIGHTNESS:
  "BRIGHTNESS (getNormedHSB c val) =
     (if real_of_int (b c) + val \<le> 100 then real_of_int (b c) + val
      else (real_of_int (b c) + val) / 100)"
  by (simp add: getNormedHSB_def Let_def p5_norm_0)

text \<open>
  C3, as stated, fails: a channel sum above the maximum is divided by the maximum, and
  the quotient is not below the maximum once the sum reaches its square. Base hue
  129600 with colour value 0 gives hue 360.
\<close>

theorem getNormedHSB_hue_not_below_360:
  "\<not> HUE (getNormedHSB \<lparr>h = 129600, s = 0, b = 0\<rparr> 0) < 360"
  by (simp add: getNormedHSB_HUE)

text \<open>
  C3, amended. Each channel is the base channel plus the colour value. A sum at or
  below the channel's maximum (360 for hue, 100 for saturation and brightness) passes
  through unchanged, negative sums included. A sum above the maximum is divided by
  the maximum: the result is above 1, and it is below the maximum exactly when the sum
  is below the square of the maximum. Base hue 350 with colour value 20 gives
  \<open>37/36\<close>, which is below 360; base hue 100 with colour value 20 gives 120.
\<close>

theorem getNormedHSB_channels:
  "HUE (getNormedHSB c val) =
     (if real_of_int (h c) + val \<le> 360 then real_of_int (h c) + val
      else (real_of_int (h c) + val) / 360) \<and>
   SATURATION (getNormedHSB c val) =
     (if real_of_int (s c) + val \<le> 100 then real_of_int (s c) + val
      else (real_of_int (s c) + val) / 100) \<and>
   BRIGHTNESS (getNormedHSB c val) =
     (if real_of_int (b c) + val \<le> 100 then real_of_int (b c) + val
      else (real_of_int (b c) + val) / 100) \<and>
   (360 < real_of_int (h c) + val \<longrightarrow>
      1 < HUE (getNormedHSB c val) \<and>
      (HUE (getNormedHSB c val) < 360 \<longleftrightarrow> real_of_int (h c) + val < 129600)) \<and>
   (100 < real_of_int (s c) + val \<longrightarrow>
      1 < SATURATION (getNormedHSB c val) \<and>
      (SATURATION (getNormedHSB c val) < 100 \<longleftrightarrow> real_of_int (s c) + val < 10000)) \<and>
   (100 < real_of_int (b c) + val \<longrightarrow>
      1 < BRIGHTNESS (getNormedHSB c val) \<and>
      (BRIGHTNESS (getNormedHSB c val) < 100 \<longleftrightarrow> real_of_int (b c) + val < 10000)) \<and>
   HUE (getNormedHSB \<lparr>h = 350, s = 0, b = 0\<rparr> 20) = 37 / 36 \<and>
   HUE (getNormedHSB \<lparr>h = 350, s = 0, b = 0\<rparr> 20) < 360 \<and>
   HUE (getNormedHSB \<lparr>h = 100, s = 0, b = 0\<rparr> 20) = 120"
proof -
  have hu: "360 < real_of_int (h c) + val \<longrightarrow>
      1 < HUE (getNormedHSB c val) \<and>
      (HUE (getNormedHSB c val) < 360 \<longleftrightarrow> real_of_int (h c) + val < 129600)"
    by (simp add: getNormedHSB_HUE)
  have sa: "100 < real_of_int (s c) + val \<longrightarrow>
      1 < SATURATION (getNormedHSB c val) \<and>
      (SATURATION (getNormedHSB c val) < 100 \<longleftrightarrow> real_of_int (s c) + val < 10000)"
    by (simp add: getNormedHSB_SATURATION)
  have br: "100 < real_of_int (b c) + val \<longrightarrow>
      1 < BRIGHTNESS (getNormedHSB c val) \<and>
      (BRIGHTNESS (getNormedHSB c val) < 100 \<longleftrightarrow> real_of_int (b c) + val < 10000)"
    by (simp add: getNormedHSB_BRIGHTNESS)
  have e1: "HUE (getNormedHSB \<lparr>h = 350, s = 0, b = 0\<rparr> 20) = 37 / 36"
    by (simp add: getNormedHSB_HUE)
  have e2: "HUE (getNormedHSB \<lparr>h = 350, s = 0, b = 0\<rparr> 20) < 360"
    by (simp add: getNormedHSB_HUE)
  have e3: "HUE (getNormedHSB \<lparr>h = 100, s = 0, b = 0\<rparr> 20) = 120"
    by (simp add: getNormedHSB_HUE)
  from getNormedHSB_HUE getNormedHSB_SATURATION getNormedHSB_BRIGHTNESS hu sa br e1 e2 e3
  show ?thesis by blast
qed

theorem getNormedHSB_channels_witness:
  "360 < real_of_int (h \<lparr>h = 350, s = 95, b = 95\<rparr>) + 20 \<and>
   100 < real_of_int (s \<lparr>h = 350, s = 95, b = 95\<rparr>) + 20 \<and>
   100 < real_of_int (b \<lparr>h = 350, s = 95, b = 95\<rparr>) + 20 \<and>
   1 < HUE (getNormedHSB \<lparr>h = 350, s = 95, b = 95\<rparr> 20) \<and>
   HUE (getNormedHSB \<lparr>h = 350, s = 95, b = 95\<rparr> 20) < 360 \<and>
   1 < SATURATION (getNormedHSB \<lparr>h = 350, s = 95, b = 95\<rparr> 20) \<and>
   SATURATION (getNormedHSB \<lparr>h = 350, s = 95, b = 95\<rparr> 20) < 100 \<and>
   1 < BRIGHTNESS (getNormedHSB \<lparr>h = 350, s = 95, b = 95\<rparr> 20) \<and>
   BRIGHTNESS (getNormedHSB \<lparr>h = 350, s = 95, b = 95\<rparr> 20) < 100"
proof -
  let ?c = "\<lparr>h = 350, s = 95, b = 95\<rparr> :: HSB"
  have a: "360 < real_of_int (h ?c) + 20" by simp
  have a2: "real_of_int (h ?c) + 20 < 129600" by simp
  have c: "100 < real_of_int (s ?c) + 20" by simp
  have c2: "real_of_int (s ?c) + 20 < 10000" by simp
  have d: "100 < real_of_int (b ?c) + 20" by simp
  have d2: "real_of_int (b ?c) + 20 < 10000" by simp
  from getNormedHSB_channels [of ?c 20] a a2 c c2 d d2
  show ?thesis by blast
qed

subsection \<open>The render sweep\<close>

lemma fieldAt_Some:
  "x < length F \<Longrightarrow> y < length (F ! x) \<Longrightarrow> fieldAt F x y = Some (F ! x ! y)"
  by (simp add: fieldAt_def)

lemma innerLoop_Inr:
  assumes "x < length F" and "\<forall>y\<in>set ys. y < length (F ! x)"
  shows "innerLoop state K F x ys acc =
           Inr (fst acc @ map (\<lambda>y. colorValueOf state (evaluate state K (F ! x ! y))) ys,
                snd acc @ map (pixelIndex x) ys)"
  using assms(2)
proof (induction ys arbitrary: acc)
  case Nil
  show ?case by simp
next
  case (Cons y ys)
  then have y: "y < length (F ! x)" and rest: "\<forall>y\<in>set ys. y < length (F ! x)"
    by simp_all
  show ?case
    by (simp add: fieldAt_Some [OF assms(1) y] Cons.IH [OF rest])
qed

lemma outerLoop_Inr:
  assumes "\<forall>x\<in>set xs. x < length F \<and> len \<le> length (F ! x)"
  shows "outerLoop state K F xs len acc =
           Inr (fst acc @ map (\<lambda>(x, y). colorValueOf state (evaluate state K (F ! x ! y)))
                            (List.product xs [0..<len]),
                snd acc @ map (\<lambda>(x, y). pixelIndex x y) (List.product xs [0..<len]))"
  using assms
proof (induction xs arbitrary: acc)
  case Nil
  show ?case by simp
next
  case (Cons x xs)
  then have x: "x < length F" and row: "\<forall>y\<in>set [0..<len]. y < length (F ! x)"
    and rest: "\<forall>x\<in>set xs. x < length F \<and> len \<le> length (F ! x)"
    by auto
  show ?case
    by (simp add: innerLoop_Inr [OF x row] Cons.IH [OF rest] comp_def)
qed

lemma square_rows:
  assumes "\<forall>row\<in>set F. length F \<le> length row"
  shows "\<forall>x\<in>set [0..<length F]. x < length F \<and> length F \<le> length (F ! x)"
  using assms by simp

lemma renderMandelbrotSet_no_error:
  assumes "\<forall>row\<in>set (FIELD sk). length (FIELD sk) \<le> length row"
  shows "fst (renderMandelbrotSet sk) = None"
  by (simp add: renderMandelbrotSet_def Let_def outerLoop_Inr [OF square_rows [OF assms]]
      colorFractal_def)

lemma renderMandelbrotSet_frame:
  "appState (snd (renderMandelbrotSet sk)) = appState sk \<and>
   FIELD (snd (renderMandelbrotSet sk)) = FIELD sk"
  by (simp add: renderMandelbrotSet_def Let_def split: sum.splits prod.splits)

lemma update_frame:
  "appState (snd (update upd sk)) = appState (snd (setState upd sk)) \<and>
   FIELD (snd (update upd sk)) = FIELD (snd (setState upd sk))"
proof (cases "setState upd sk")
  case (Pair e sk')
  then show ?thesis
    by (cases e) (simp_all add: update_def renderMandelbrotSet_frame)
qed

subsection \<open>The update entry point\<close>

lemma setState_reset:
  "reset_u upd \<Longrightarrow> setState upd sk = (None, sk\<lparr>appState := defaultState\<rparr>)"
  by (simp add: setState_def getState_def)

lemma setState_FIELD:
  "\<not> reset_u upd \<Longrightarrow>
   FIELD (snd (setState upd sk)) =
     (if zoomX (appState sk) \<noteq> real_of_int (bitor0 (zoomX_u upd)) * (1 / 100) \<or>
         zoomY (appState sk) \<noteq> real_of_int (bitor0 (zoomY_u upd)) * (1 / 100) \<or>
         isJulia (appState sk) \<noteq> isJulia_u upd
      then createComplexPlane (real_of_int (bitor0 (zoomX_u upd)) * (1 / 100))
                              (real_of_int (bitor0 (zoomY_u upd)) * (1 / 100))
      else FIELD sk)"
  by (simp add: setState_def getField_def Let_def split: option.splits)

lemma setState_appState:
  "\<not> reset_u upd \<Longrightarrow> hsb_u upd = Some c \<Longrightarrow>
   appState (snd (setState upd sk)) =
     \<lparr>maxIters = bitor0 (iterations upd),
      escapeRadius = bitor0 (bound upd),
      escapeColoring = escapeColoring (appState sk),
      zoomX = real_of_int (bitor0 (zoomX_u upd)) * (1 / 100),
      zoomY = real_of_int (bitor0 (zoomY_u upd)) * (1 / 100),
      hsb = \<lparr>h = bitor0 (hue c), s = bitor0 (saturation c), b = bitor0 (brightness c)\<rparr>,
      isJulia = isJulia_u upd,
      juliaConstant = juliaConstant_u upd,
      reset = reset (appState sk)\<rparr>"
  by (simp add: setState_def getField_def Let_def)

lemma setState_no_error:
  "\<not> reset_u upd \<Longrightarrow> hsb_u upd = Some c \<Longrightarrow> fst (setState upd sk) = None"
  by (simp add: setState_def getField_def Let_def)


lemma createComplexPlane_square:
  "\<forall>row\<in>set (createComplexPlane zX zY). length (createComplexPlane zX zY) \<le> length row"
  by (auto simp: createComplexPlane_def WIDTH_def HEIGHT_def)


lemma update_no_error:
  assumes "\<not> reset_u upd" and "hsb_u upd = Some c"
    and "\<forall>row\<in>set (FIELD sk). length (FIELD sk) \<le> length row"
  shows "fst (update upd sk) = None"
proof -
  obtain e sk' where st: "setState upd sk = (e, sk')" by (cases "setState upd sk")
  have e: "e = None"
    using setState_no_error [OF assms(1,2), of sk] st by simp
  have "FIELD sk' = FIELD (snd (setState upd sk))" using st by simp
  then have "FIELD sk' = FIELD sk \<or>
             FIELD sk' = createComplexPlane (real_of_int (bitor0 (zoomX_u upd)) * (1 / 100))
                                            (real_of_int (bitor0 (zoomY_u upd)) * (1 / 100))"
    by (simp add: setState_FIELD [OF assms(1)] split: if_splits)
  then have "\<forall>row\<in>set (FIELD sk'). length (FIELD sk') \<le> length row"
    using assms(3) createComplexPlane_square by metis
  then have "fst (renderMandelbrotSet sk') = None"
    by (rule renderMandelbrotSet_no_error)
  then show ?thesis by (simp add: update_def st e)
qed

lemma bitor0_examples:
  "bitor0 None = 0" "bitor0 (Some (- 250)) = - 250" "bitor0 (Some 250) = 250"
  "bitor0 (Some (- 5)) = - 5" "bitor0 (Some 0) = 0" "bitor0 (Some 10) = 10"
  "bitor0 (Some 400) = 400" "bitor0 (Some 20) = 20" "bitor0 (Some 100) = 100"
  "bitor0 (Some (- 100)) = - 100" "bitor0 (Some 3) = 3"
  by (simp_all add: bitor0_def toInt32_def wrap32_def)

lemma p5_setup_simps:
  "appState p5_setup = defaultState"
  "FIELD p5_setup = createComplexPlane (- 5 / 2) (5 / 2)"
  by (simp_all add: p5_setup_def defaultState_def)





text \<open>
  C5. The parameters of the stored field are the window and the variant recorded in
  \<open>appState\<close>. A patch without a reset whose window and variant equal them keeps the
  stored field, whatever else it changes; when one of them differs, the field is
  sampled anew from the patch's window. In either case a field that was sampled from the
  patch's window has the same values afterwards.
\<close>

theorem update_rebuilds_field_only_on_change:
  assumes "\<not> reset_u upd"
  shows "(zoomX (appState sk) = real_of_int (bitor0 (zoomX_u upd)) * (1 / 100) \<and>
          zoomY (appState sk) = real_of_int (bitor0 (zoomY_u upd)) * (1 / 100) \<and>
          isJulia (appState sk) = isJulia_u upd
            \<longrightarrow> FIELD (snd (update upd sk)) = FIELD sk) \<and>
         (zoomX (appState sk) \<noteq> real_of_int (bitor0 (zoomX_u upd)) * (1 / 100) \<or>
          zoomY (appState sk) \<noteq> real_of_int (bitor0 (zoomY_u upd)) * (1 / 100) \<or>
          isJulia (appState sk) \<noteq> isJulia_u upd
            \<longrightarrow> FIELD (snd (update upd sk)) =
                  createComplexPlane (real_of_int (bitor0 (zoomX_u upd)) * (1 / 100))
                                     (real_of_int (bitor0 (zoomY_u upd)) * (1 / 100))) \<and>
         (FIELD sk = createComplexPlane (real_of_int (bitor0 (zoomX_u upd)) * (1 / 100))
                                        (real_of_int (bitor0 (zoomY_u upd)) * (1 / 100))
            \<longrightarrow> FIELD (snd (update upd sk)) = FIELD sk)"
proof -
  have "FIELD (snd (update upd sk)) = FIELD (snd (setState upd sk))"
    by (simp only: update_frame)
  then show ?thesis
    by (simp add: setState_FIELD [OF assms])
qed

theorem update_rebuilds_field_only_on_change_witness:
  "\<not> reset_u \<lparr>reset_u = False, zoomX_u = Some (- 250), zoomY_u = Some 250,
        iterations = Some 400, bound = Some 20, isJulia_u = Some False,
        juliaConstant_u = Some (57 / 200),
        hsb_u = Some \<lparr>hue = Some 10, saturation = Some 0, brightness = Some 0\<rparr>,
        escapeColoring_u = None, extra = []\<rparr> \<and>
   zoomX (appState p5_setup) = real_of_int (bitor0 (zoomX_u \<lparr>reset_u = False, zoomX_u = Some (- 250), zoomY_u = Some 250,
        iterations = Some 400, bound = Some 20, isJulia_u = Some False,
        juliaConstant_u = Some (57 / 200),
        hsb_u = Some \<lparr>hue = Some 10, saturation = Some 0, brightness = Some 0\<rparr>,
        escapeColoring_u = None, extra = []\<rparr>)) * (1 / 100) \<and>
   zoomY (appState p5_setup) = real_of_int (bitor0 (zoomY_u \<lparr>reset_u = False, zoomX_u = Some (- 250), zoomY_u = Some 250,
        iterations = Some 400, bound = Some 20, isJulia_u = Some False,
        juliaConstant_u = Some (57 / 200),
        hsb_u = Some \<lparr>hue = Some 10, saturation = Some 0, brightness = Some 0\<rparr>,
        escapeColoring_u = None, extra = []\<rparr>)) * (1 / 100) \<and>
   isJulia (appState p5_setup) = isJulia_u \<lparr>reset_u = False, zoomX_u = Some (- 250), zoomY_u = Some 250,
        iterations = Some 400, bound = Some 20, isJulia_u = Some False,
        juliaConstant_u = Some (57 / 200),
        hsb_u = Some \<lparr>hue = Some 10, saturation = Some 0, brightness = Some 0\<rparr>,
        escapeColoring_u = None, extra = []\<rparr> \<and>
   FIELD p5_setup = createComplexPlane (real_of_int (bitor0 (zoomX_u \<lparr>reset_u = False, zoomX_u = Some (- 250), zoomY_u = Some 250,
        iterations = Some 400, bound = Some 20, isJulia_u = Some False,
        juliaConstant_u = Some (57 / 200),
        hsb_u = Some \<lparr>hue = Some 10, saturation = Some 0, brightness = Some 0\<rparr>,
        escapeColoring_u = None, extra = []\<rparr>)) * (1 / 100))
                                       (real_of_int (bitor0 (zoomY_u \<lparr>reset_u = False, zoomX_u = Some (- 250), zoomY_u = Some 250,
        iterations = Some 400, bound = Some 20, isJulia_u = Some False,
        juliaConstant_u = Some (57 / 200),
        hsb_u = Some \<lparr>hue = Some 10, saturation = Some 0, brightness = Some 0\<rparr>,
        escapeColoring_u = None, extra = []\<rparr>)) * (1 / 100)) \<and>
   FIELD (snd (update \<lparr>reset_u = False, zoomX_u = Some (- 250), zoomY_u = Some 250,
        iterations = Some 400, bound = Some 20, isJulia_u = Some False,
        juliaConstant_u = Some (57 / 200),
        hsb_u = Some \<lparr>hue = Some 10, saturation = Some 0, brightness = Some 0\<rparr>,
        escapeColoring_u = None, extra = []\<rparr> p5_setup)) = FIELD p5_setup \<and>
   \<not> reset_u \<lparr>reset_u = False, zoomX_u = Some (- 100), zoomY_u = Some 100,
        iterations = Some 400, bound = Some 20, isJulia_u = Some False,
        juliaConstant_u = Some (57 / 200),
        hsb_u = Some \<lparr>hue = Some 10, saturation = Some 0, brightness = Some 0\<rparr>,
        escapeColoring_u = None, extra = []\<rparr> \<and>
   zoomX (appState p5_setup) \<noteq> real_of_int (bitor0 (zoomX_u \<lparr>reset_u = False, zoomX_u = Some (- 100), zoomY_u = Some 100,
        iterations = Some 400, bound = Some 20, isJulia_u = Some False,
        juliaConstant_u = Some (57 / 200),
        hsb_u = Some \<lparr>hue = Some 10, saturation = Some 0, brightness = Some 0\<rparr>,
        escapeColoring_u = None, extra = []\<rparr>)) * (1 / 100) \<and>
   FIELD (snd (update \<lparr>reset_u = False, zoomX_u = Some (- 100), zoomY_u = Some 100,
        iterations = Some 400, bound = Some 20, isJulia_u = Some False,
        juliaConstant_u = Some (57 / 200),
        hsb_u = Some \<lparr>hue = Some 10, saturation = Some 0, brightness = Some 0\<rparr>,
        escapeColoring_u = None, extra = []\<rparr> p5_setup)) = createComplexPlane (- 1) 1"
proof -
  let ?u = "\<lparr>reset_u = False, zoomX_u = Some (- 250), zoomY_u = Some 250,
        iterations = Some 400, bound = Some 20, isJulia_u = Some False,
        juliaConstant_u = Some (57 / 200),
        hsb_u = Some \<lparr>hue = Some 10, saturation = Some 0, brightness = Some 0\<rparr>,
        escapeColoring_u = None, extra = []\<rparr>"
  let ?v = "\<lparr>reset_u = False, zoomX_u = Some (- 100), zoomY_u = Some 100,
        iterations = Some 400, bound = Some 20, isJulia_u = Some False,
        juliaConstant_u = Some (57 / 200),
        hsb_u = Some \<lparr>hue = Some 10, saturation = Some 0, brightness = Some 0\<rparr>,
        escapeColoring_u = None, extra = []\<rparr>"
  have a: "\<not> reset_u ?u" by simp
  have zx: "zoomX (appState p5_setup) = real_of_int (bitor0 (zoomX_u ?u)) * (1 / 100)"
    by (simp add: p5_setup_simps defaultState_def bitor0_examples)
  have zy: "zoomY (appState p5_setup) = real_of_int (bitor0 (zoomY_u ?u)) * (1 / 100)"
    by (simp add: p5_setup_simps defaultState_def bitor0_examples)
  have ij: "isJulia (appState p5_setup) = isJulia_u ?u"
    by (simp add: p5_setup_simps defaultState_def)
  have fl: "FIELD p5_setup =
              createComplexPlane (real_of_int (bitor0 (zoomX_u ?u)) * (1 / 100))
                                 (real_of_int (bitor0 (zoomY_u ?u)) * (1 / 100))"
    by (simp add: p5_setup_simps bitor0_examples)
  have keep: "FIELD (snd (update ?u p5_setup)) = FIELD p5_setup"
    using update_rebuilds_field_only_on_change [OF a, of p5_setup] zx zy ij by blast
  have c: "\<not> reset_u ?v" by simp
  have nz: "zoomX (appState p5_setup) \<noteq> real_of_int (bitor0 (zoomX_u ?v)) * (1 / 100)"
    by (simp add: p5_setup_simps defaultState_def bitor0_examples)
  have v: "real_of_int (bitor0 (zoomX_u ?v)) * (1 / 100) = - 1"
          "real_of_int (bitor0 (zoomY_u ?v)) * (1 / 100) = 1"
    by (simp_all add: bitor0_examples)
  have "FIELD (snd (update ?v p5_setup)) =
          createComplexPlane (real_of_int (bitor0 (zoomX_u ?v)) * (1 / 100))
                             (real_of_int (bitor0 (zoomY_u ?v)) * (1 / 100))"
    using update_rebuilds_field_only_on_change [OF c, of p5_setup] nz by blast
  then have rebuilt: "FIELD (snd (update ?v p5_setup)) = createComplexPlane (- 1) 1"
    by (simp only: v)
  from a zx zy ij fl keep c nz rebuilt show ?thesis by blast
qed

text \<open>
  C6, as stated, fails: after \<open>setup\<close>, a patch with \<open>bound = -5\<close> and
  \<open>iterations = 0\<close> is stored and rendered, and no error is signalled.
\<close>

theorem update_accepts_nonpositive_radius_and_iterations:
  "fst (update \<lparr>reset_u = False, zoomX_u = Some (- 250), zoomY_u = Some 250,
        iterations = Some 0, bound = Some (- 5), isJulia_u = Some False,
        juliaConstant_u = Some (57 / 200),
        hsb_u = Some \<lparr>hue = Some 0, saturation = Some 0, brightness = Some 0\<rparr>,
        escapeColoring_u = None, extra = []\<rparr> p5_setup) = None \<and>
   escapeRadius (appState (snd (update \<lparr>reset_u = False, zoomX_u = Some (- 250), zoomY_u = Some 250,
        iterations = Some 0, bound = Some (- 5), isJulia_u = Some False,
        juliaConstant_u = Some (57 / 200),
        hsb_u = Some \<lparr>hue = Some 0, saturation = Some 0, brightness = Some 0\<rparr>,
        escapeColoring_u = None, extra = []\<rparr> p5_setup))) = - 5 \<and>
   maxIters (appState (snd (update \<lparr>reset_u = False, zoomX_u = Some (- 250), zoomY_u = Some 250,
        iterations = Some 0, bound = Some (- 5), isJulia_u = Some False,
        juliaConstant_u = Some (57 / 200),
        hsb_u = Some \<lparr>hue = Some 0, saturation = Some 0, brightness = Some 0\<rparr>,
        escapeColoring_u = None, extra = []\<rparr> p5_setup))) = 0"
proof -
  let ?u = "\<lparr>reset_u = False, zoomX_u = Some (- 250), zoomY_u = Some 250,
        iterations = Some 0, bound = Some (- 5), isJulia_u = Some False,
        juliaConstant_u = Some (57 / 200),
        hsb_u = Some \<lparr>hue = Some 0, saturation = Some 0, brightness = Some 0\<rparr>,
        escapeColoring_u = None, extra = []\<rparr>"
  let ?c = "\<lparr>hue = Some 0, saturation = Some 0, brightness = Some 0\<rparr>"
  have a: "\<not> reset_u ?u" by simp
  have c: "hsb_u ?u = Some ?c" by simp
  have sq: "\<forall>row\<in>set (FIELD p5_setup). length (FIELD p5_setup) \<le> length row"
    unfolding p5_setup_simps by (rule createComplexPlane_square)
  have ok: "fst (update ?u p5_setup) = None"
    by (rule update_no_error [OF a c sq])
  have "appState (snd (update ?u p5_setup)) = appState (snd (setState ?u p5_setup))"
    by (simp only: update_frame)
  then have "escapeRadius (appState (snd (update ?u p5_setup))) = - 5 \<and>
             maxIters (appState (snd (update ?u p5_setup))) = 0"
    by (simp add: setState_appState [OF a c] bitor0_examples)
  with ok show ?thesis by blast
qed

text \<open>
  C6, amended. Of the listed violations only the length mismatch is checked:
  \<open>colorFractal\<close> signals its error before writing any pixel when the colour values
  and the pixel indices differ in number. \<open>update\<close> does not validate the escape radius
  or the iteration limit: on a field whose rows are at least as long as the field, a
  patch without a reset that carries an \<open>hsb\<close> object is stored and rendered without
  an error, whatever its \<open>bound\<close> and \<open>iterations\<close> are.
\<close>

theorem colorFractal_is_the_only_check:
  "(length colorValues \<noteq> length pxs \<longrightarrow>
      colorFractal hsbObj colorValues pxs px = (Some CannotColorFractal, px)) \<and>
   (\<not> reset_u upd \<and> hsb_u upd = Some c \<and>
    (\<forall>row\<in>set (FIELD sk). length (FIELD sk) \<le> length row) \<longrightarrow>
      fst (update upd sk) = None \<and>
      escapeRadius (appState (snd (update upd sk))) = bitor0 (bound upd) \<and>
      maxIters (appState (snd (update upd sk))) = bitor0 (iterations upd))"
proof -
  have "colorFractal hsbObj colorValues pxs px = (Some CannotColorFractal, px)"
    if "length colorValues \<noteq> length pxs"
    using that by (simp add: colorFractal_def)
  moreover have "fst (update upd sk) = None \<and>
      escapeRadius (appState (snd (update upd sk))) = bitor0 (bound upd) \<and>
      maxIters (appState (snd (update upd sk))) = bitor0 (iterations upd)"
    if a: "\<not> reset_u upd" and c: "hsb_u upd = Some c"
      and sq: "\<forall>row\<in>set (FIELD sk). length (FIELD sk) \<le> length row"
  proof -
    have "appState (snd (update upd sk)) = appState (snd (setState upd sk))"
      by (simp only: update_frame)
    then show ?thesis
      by (simp add: update_no_error [OF a c sq] setState_appState [OF a c])
  qed
  ultimately show ?thesis by blast
qed

theorem colorFractal_is_the_only_check_witness:
  "length [Finite 1, Finite 2] \<noteq> length [0 :: int] \<and>
   colorFractal \<lparr>h = 0, s = 0, b = 0\<rparr> [Finite 1, Finite 2] [0] loadPixels = (Some CannotColorFractal, loadPixels) \<and>
   \<not> reset_u \<lparr>reset_u = False, zoomX_u = Some (- 250), zoomY_u = Some 250,
        iterations = Some 0, bound = Some (- 5), isJulia_u = Some False,
        juliaConstant_u = Some (57 / 200),
        hsb_u = Some \<lparr>hue = Some 0, saturation = Some 0, brightness = Some 0\<rparr>,
        escapeColoring_u = None, extra = []\<rparr> \<and>
   hsb_u \<lparr>reset_u = False, zoomX_u = Some (- 250), zoomY_u = Some 250,
        iterations = Some 0, bound = Some (- 5), isJulia_u = Some False,
        juliaConstant_u = Some (57 / 200),
        hsb_u = Some \<lparr>hue = Some 0, saturation = Some 0, brightness = Some 0\<rparr>,
        escapeColoring_u = None, extra = []\<rparr> = Some \<lparr>hue = Some 0, saturation = Some 0, brightness = Some 0\<rparr> \<and>
   fst (update \<lparr>reset_u = False, zoomX_u = Some (- 250), zoomY_u = Some 250,
        iterations = Some 0, bound = Some (- 5), isJulia_u = Some False,
        juliaConstant_u = Some (57 / 200),
        hsb_u = Some \<lparr>hue = Some 0, saturation = Some 0, brightness = Some 0\<rparr>,
        escapeColoring_u = None, extra = []\<rparr> p5_setup) = None \<and>
   escapeRadius (appState (snd (update \<lparr>reset_u = False, zoomX_u = Some (- 250), zoomY_u = Some 250,
        iterations = Some 0, bound = Some (- 5), isJulia_u = Some False,
        juliaConstant_u = Some (57 / 200),
        hsb_u = Some \<lparr>hue = Some 0, saturation = Some 0, brightness = Some 0\<rparr>,
        escapeColoring_u = None, extra = []\<rparr> p5_setup))) = - 5"
proof -
  let ?u = "\<lparr>reset_u = False, zoomX_u = Some (- 250), zoomY_u = Some 250,
        iterations = Some 0, bound = Some (- 5), isJulia_u = Some False,
        juliaConstant_u = Some (57 / 200),
        hsb_u = Some \<lparr>hue = Some 0, saturation = Some 0, brightness = Some 0\<rparr>,
        escapeColoring_u = None, extra = []\<rparr>"
  let ?c = "\<lparr>hue = Some 0, saturation = Some 0, brightness = Some 0\<rparr>"
  have l: "length [Finite 1, Finite 2] \<noteq> length [0 :: int]" by simp
  have a: "\<not> reset_u ?u" by simp
  have c: "hsb_u ?u = Some ?c" by simp
  have sq: "\<forall>row\<in>set (FIELD p5_setup). length (FIELD p5_setup) \<le> length row"
    unfolding p5_setup_simps by (rule createComplexPlane_square)
  have bd: "bitor0 (bound ?u) = - 5" by (simp add: bitor0_examples)
  note inst = colorFractal_is_the_only_check
    [of "[Finite 1, Finite 2]" "[0]" "\<lparr>h = 0, s = 0, b = 0\<rparr>" loadPixels ?u ?c p5_setup]
  have e1: "colorFractal \<lparr>h = 0, s = 0, b = 0\<rparr> [Finite 1, Finite 2] [0] loadPixels
              = (Some CannotColorFractal, loadPixels)"
    using inst l by blast
  have e2: "fst (update ?u p5_setup) = None \<and>
            escapeRadius (appState (snd (update ?u p5_setup))) = bitor0 (bound ?u)"
    using inst a c sq by blast
  from l e1 a c e2 show ?thesis by (simp only: bd) blast
qed

text \<open>
  C7. A patch that asks for a reset puts the configuration back to the defaults,
  whatever the state before: \<open>maxIters = 400\<close>, \<open>escapeRadius = 20\<close>,
  \<open>escapeColoring = false\<close>, the window from \<open>-2.5\<close> to \<open>2.5\<close> on both axes, and
  the standard variant.
\<close>

theorem update_reset_restores_defaults:
  assumes "reset_u upd"
  shows "appState (snd (update upd sk)) = defaultState \<and>
         maxIters (appState (snd (update upd sk))) = 400 \<and>
         escapeRadius (appState (snd (update upd sk))) = 20 \<and>
         escapeColoring (appState (snd (update upd sk))) = False \<and>
         zoomX (appState (snd (update upd sk))) = - 5 / 2 \<and>
         zoomY (appState (snd (update upd sk))) = 5 / 2 \<and>
         isJulia (appState (snd (update upd sk))) = Some False"
proof -
  have "appState (snd (update upd sk)) = appState (snd (setState upd sk))"
    by (simp only: update_frame)
  then have "appState (snd (update upd sk)) = defaultState"
    by (simp add: setState_reset [OF assms])
  then show ?thesis by (simp add: defaultState_def)
qed

theorem update_reset_restores_defaults_witness:
  "reset_u \<lparr>reset_u = True, zoomX_u = None, zoomY_u = None, iterations = None, bound = None,
        isJulia_u = None, juliaConstant_u = None, hsb_u = None,
        escapeColoring_u = None, extra = []\<rparr> \<and>
   maxIters (appState (snd (update \<lparr>reset_u = False, zoomX_u = Some (- 250), zoomY_u = Some 250,
        iterations = Some 0, bound = Some (- 5), isJulia_u = Some False,
        juliaConstant_u = Some (57 / 200),
        hsb_u = Some \<lparr>hue = Some 0, saturation = Some 0, brightness = Some 0\<rparr>,
        escapeColoring_u = None, extra = []\<rparr> p5_setup))) = 0 \<and>
   appState (snd (update \<lparr>reset_u = True, zoomX_u = None, zoomY_u = None, iterations = None, bound = None,
        isJulia_u = None, juliaConstant_u = None, hsb_u = None,
        escapeColoring_u = None, extra = []\<rparr> (snd (update \<lparr>reset_u = False, zoomX_u = Some (- 250), zoomY_u = Some 250,
        iterations = Some 0, bound = Some (- 5), isJulia_u = Some False,
        juliaConstant_u = Some (57 / 200),
        hsb_u = Some \<lparr>hue = Some 0, saturation = Some 0, brightness = Some 0\<rparr>,
        escapeColoring_u = None, extra = []\<rparr> p5_setup)))) = defaultState"
proof -
  let ?r = "\<lparr>reset_u = True, zoomX_u = None, zoomY_u = None, iterations = None, bound = None,
        isJulia_u = None, juliaConstant_u = None, hsb_u = None,
        escapeColoring_u = None, extra = []\<rparr>"
  let ?u = "\<lparr>reset_u = False, zoomX_u = Some (- 250), zoomY_u = Some 250,
        iterations = Some 0, bound = Some (- 5), isJulia_u = Some False,
        juliaConstant_u = Some (57 / 200),
        hsb_u = Some \<lparr>hue = Some 0, saturation = Some 0, brightness = Some 0\<rparr>,
        escapeColoring_u = None, extra = []\<rparr>"
  let ?c = "\<lparr>hue = Some 0, saturation = Some 0, brightness = Some 0\<rparr>"
  have a: "reset_u ?r" by simp
  have "appState (snd (update ?u p5_setup)) = appState (snd (setState ?u p5_setup))"
    by (simp only: update_frame)
  then have m: "maxIters (appState (snd (update ?u p5_setup))) = 0"
    by (simp add: setState_appState [where c = ?c] bitor0_examples)
  from update_reset_restores_defaults [OF a, of "snd (update ?u p5_setup)"] a m
  show ?thesis by blast
qed



subsection \<open>What a render computes\<close>

lemma colorValueOf_cases:
  "colorValueOf state (Zf, itr) =
     (if escapeColoring state \<and> itr = maxIters state then Finite 0
      else (case Zf of
              Numeric Z \<Rightarrow>
                if 1 < modulus Z then Finite (real_of_int itr - ln (ln (modulus Z)) / ln 2)
                else if modulus Z = 1 then PosInfinity else NaN
            | NotNumeric \<Rightarrow> NaN))"
proof (cases Zf)
  case NotNumeric
  then show ?thesis by (simp add: colorValueOf_def modulus_of_def)
next
  case (Numeric Z)
  have nn: "0 \<le> modulus Z" by (rule modulus_nonneg)
  have l2: "0 < ln (2::real)" by simp
  consider "modulus Z = 0" | "0 < modulus Z" "modulus Z < 1" | "modulus Z = 1" | "1 < modulus Z"
    using nn by linarith
  then show ?thesis
  proof cases
    case 1
    then show ?thesis by (simp add: colorValueOf_def modulus_of_def Numeric)
  next
    case 2
    then have "ln (modulus Z) < 0" by simp
    with 2 show ?thesis by (simp add: colorValueOf_def modulus_of_def Numeric)
  next
    case 3
    then show ?thesis by (simp add: colorValueOf_def modulus_of_def Numeric log2_def)
  next
    case 4
    then have "0 < ln (modulus Z)" by simp
    with 4 show ?thesis by (simp add: colorValueOf_def modulus_of_def Numeric log2_def)
  qed
qed

lemma renderMandelbrotSet_sweep:
  assumes "\<forall>row\<in>set (FIELD sk). length (FIELD sk) \<le> length row"
  shows "renderMandelbrotSet sk =
           (None, sk\<lparr>pixels :=
              colorLoop (hsb (appState sk))
                (zip (map (\<lambda>(x, y). colorValueOf (appState sk)
                                      (evaluate (appState sk) (juliaK (appState sk))
                                         (FIELD sk ! x ! y)))
                          (List.product [0..<length (FIELD sk)] [0..<length (FIELD sk)]))
                     (map (\<lambda>(x, y). pixelIndex x y) (List.product [0..<length (FIELD sk)] [0..<length (FIELD sk)])))
                (pixels sk)\<rparr>)"
  by (simp add: renderMandelbrotSet_def Let_def getState_def
      outerLoop_Inr [OF square_rows [OF assms]] colorFractal_def)

text \<open>
  C10. In a render of the Julia variant with the constant set to the number \<open>c\<close>,
  the constant handed to the sweep is \<open>c + ci\<close>, and the colour value of every pixel
  comes from the loop run on the pixel's sample with that constant: its real and its
  imaginary part are equal, whatever the sample.
\<close>

theorem render_julia_constant_has_equal_parts:
  assumes "isJulia (appState sk) = Some True"
    and "juliaConstant (appState sk) = Some c"
    and "\<forall>row\<in>set (FIELD sk). length (FIELD sk) \<le> length row"
  shows "juliaK (appState sk) = Some (Numeric \<lparr>re = c, im = c\<rparr>) \<and>
         renderMandelbrotSet sk =
           (None, sk\<lparr>pixels :=
              colorLoop (hsb (appState sk))
                (zip (map (\<lambda>(x, y). colorValueOf (appState sk)
                             (case whileLoop (escapeRadius (appState sk)) (maxIters (appState sk))
                                     \<lparr>re = c, im = c\<rparr> (FIELD sk ! x ! y) 0 of
                                (Zf, itr) \<Rightarrow> (Numeric Zf, itr)))
                          (List.product [0..<length (FIELD sk)] [0..<length (FIELD sk)]))
                     (map (\<lambda>(x, y). pixelIndex x y) (List.product [0..<length (FIELD sk)] [0..<length (FIELD sk)])))
                (pixels sk)\<rparr>)"
proof -
  have K: "juliaK (appState sk) = Some (Numeric \<lparr>re = c, im = c\<rparr>)"
    using assms(1,2) by (simp add: juliaK_def Complex_of_parts_def Complex_of_def)
  have ev: "evaluate (appState sk) (Some (Numeric \<lparr>re = c, im = c\<rparr>)) Z =
              (case whileLoop (escapeRadius (appState sk)) (maxIters (appState sk))
                      \<lparr>re = c, im = c\<rparr> Z 0 of
                 (Zf, itr) \<Rightarrow> (Numeric Zf, itr))" for Z
    by (simp add: evaluate_def pixelConstant_def)
  show ?thesis
    by (simp only: renderMandelbrotSet_sweep [OF assms(3)] K ev)
qed

theorem render_julia_constant_has_equal_parts_witness:
  "isJulia (appState \<lparr>appState = defaultState\<lparr>isJulia := Some True\<rparr>,
                      FIELD = [[\<lparr>re = 0, im = 0\<rparr>]], pixels = [0, 0, 0, 0]\<rparr>) = Some True \<and>
   juliaK (appState \<lparr>appState = defaultState\<lparr>isJulia := Some True\<rparr>,
                     FIELD = [[\<lparr>re = 0, im = 0\<rparr>]], pixels = [0, 0, 0, 0]\<rparr>)
     = Some (Numeric \<lparr>re = 57 / 200, im = 57 / 200\<rparr>) \<and>
   fst (renderMandelbrotSet \<lparr>appState = defaultState\<lparr>isJulia := Some True\<rparr>,
                            FIELD = [[\<lparr>re = 0, im = 0\<rparr>]], pixels = [0, 0, 0, 0]\<rparr>) = None"
proof -
  let ?sk = "\<lparr>appState = defaultState\<lparr>isJulia := Some True\<rparr>,
             FIELD = [[\<lparr>re = 0, im = 0\<rparr>]], pixels = [0, 0, 0, 0]\<rparr>"
  have a: "isJulia (appState ?sk) = Some True" by simp
  have c: "juliaConstant (appState ?sk) = Some (57 / 200)" by (simp add: defaultState_def)
  have sq: "\<forall>row\<in>set (FIELD ?sk). length (FIELD ?sk) \<le> length row" by simp
  note inst = render_julia_constant_has_equal_parts [OF a c sq]
  have k: "juliaK (appState ?sk) = Some (Numeric \<lparr>re = 57 / 200, im = 57 / 200\<rparr>)"
    using inst by (rule conjunct1)
  have "fst (renderMandelbrotSet ?sk) = None"
    by (simp only: conjunct2 [OF inst] fst_conv)
  with a k show ?thesis by blast
qed

text \<open>
  C2, as stated, fails: the colour value can be 0 while \<open>escapeColoring\<close> is off.
  After \<open>setup\<close>, a patch that selects the Julia variant with the constant
  \<open>e\<^sup>2 / \<surd>2\<close> and the escape radius 3 leaves \<open>escapeColoring\<close> off; the pixel
  \<open>(256, 256)\<close> has the sample 0, which one step takes to modulus \<open>e\<^sup>2\<close>, and its
  colour value is \<open>1 - log(log(e\<^sup>2)) / log(2) = 0\<close>.
\<close>

theorem colorValue_zero_without_escapeColoring:
  "escapeColoring (appState (snd (update \<lparr>reset_u = False, zoomX_u = Some (- 250), zoomY_u = Some 250,
        iterations = Some 400, bound = Some 3, isJulia_u = Some True,
        juliaConstant_u = Some (exp 2 / sqrt 2),
        hsb_u = Some \<lparr>hue = Some 0, saturation = Some 0, brightness = Some 0\<rparr>,
        escapeColoring_u = None, extra = []\<rparr> p5_setup))) = False \<and>
   FIELD (snd (update \<lparr>reset_u = False, zoomX_u = Some (- 250), zoomY_u = Some 250,
        iterations = Some 400, bound = Some 3, isJulia_u = Some True,
        juliaConstant_u = Some (exp 2 / sqrt 2),
        hsb_u = Some \<lparr>hue = Some 0, saturation = Some 0, brightness = Some 0\<rparr>,
        escapeColoring_u = None, extra = []\<rparr> p5_setup)) ! 256 ! 256 = \<lparr>re = 0, im = 0\<rparr> \<and>
   evaluate (appState (snd (update \<lparr>reset_u = False, zoomX_u = Some (- 250), zoomY_u = Some 250,
        iterations = Some 400, bound = Some 3, isJulia_u = Some True,
        juliaConstant_u = Some (exp 2 / sqrt 2),
        hsb_u = Some \<lparr>hue = Some 0, saturation = Some 0, brightness = Some 0\<rparr>,
        escapeColoring_u = None, extra = []\<rparr> p5_setup)))
            (juliaK (appState (snd (update \<lparr>reset_u = False, zoomX_u = Some (- 250), zoomY_u = Some 250,
        iterations = Some 400, bound = Some 3, isJulia_u = Some True,
        juliaConstant_u = Some (exp 2 / sqrt 2),
        hsb_u = Some \<lparr>hue = Some 0, saturation = Some 0, brightness = Some 0\<rparr>,
        escapeColoring_u = None, extra = []\<rparr> p5_setup))))
            (FIELD (snd (update \<lparr>reset_u = False, zoomX_u = Some (- 250), zoomY_u = Some 250,
        iterations = Some 400, bound = Some 3, isJulia_u = Some True,
        juliaConstant_u = Some (exp 2 / sqrt 2),
        hsb_u = Some \<lparr>hue = Some 0, saturation = Some 0, brightness = Some 0\<rparr>,
        escapeColoring_u = None, extra = []\<rparr> p5_setup)) ! 256 ! 256)
     = (Numeric \<lparr>re = exp 2 / sqrt 2, im = exp 2 / sqrt 2\<rparr>, 1) \<and>
   colorValueOf (appState (snd (update \<lparr>reset_u = False, zoomX_u = Some (- 250), zoomY_u = Some 250,
        iterations = Some 400, bound = Some 3, isJulia_u = Some True,
        juliaConstant_u = Some (exp 2 / sqrt 2),
        hsb_u = Some \<lparr>hue = Some 0, saturation = Some 0, brightness = Some 0\<rparr>,
        escapeColoring_u = None, extra = []\<rparr> p5_setup)))
     (evaluate (appState (snd (update \<lparr>reset_u = False, zoomX_u = Some (- 250), zoomY_u = Some 250,
        iterations = Some 400, bound = Some 3, isJulia_u = Some True,
        juliaConstant_u = Some (exp 2 / sqrt 2),
        hsb_u = Some \<lparr>hue = Some 0, saturation = Some 0, brightness = Some 0\<rparr>,
        escapeColoring_u = None, extra = []\<rparr> p5_setup)))
               (juliaK (appState (snd (update \<lparr>reset_u = False, zoomX_u = Some (- 250), zoomY_u = Some 250,
        iterations = Some 400, bound = Some 3, isJulia_u = Some True,
        juliaConstant_u = Some (exp 2 / sqrt 2),
        hsb_u = Some \<lparr>hue = Some 0, saturation = Some 0, brightness = Some 0\<rparr>,
        escapeColoring_u = None, extra = []\<rparr> p5_setup))))
               (FIELD (snd (update \<lparr>reset_u = False, zoomX_u = Some (- 250), zoomY_u = Some 250,
        iterations = Some 400, bound = Some 3, isJulia_u = Some True,
        juliaConstant_u = Some (exp 2 / sqrt 2),
        hsb_u = Some \<lparr>hue = Some 0, saturation = Some 0, brightness = Some 0\<rparr>,
        escapeColoring_u = None, extra = []\<rparr> p5_setup)) ! 256 ! 256))
     = Finite 0"
proof -
  let ?u = "\<lparr>reset_u = False, zoomX_u = Some (- 250), zoomY_u = Some 250,
        iterations = Some 400, bound = Some 3, isJulia_u = Some True,
        juliaConstant_u = Some (exp 2 / sqrt 2),
        hsb_u = Some \<lparr>hue = Some 0, saturation = Some 0, brightness = Some 0\<rparr>,
        escapeColoring_u = None, extra = []\<rparr>"
  let ?c = "\<lparr>hue = Some 0, saturation = Some 0, brightness = Some 0\<rparr>"
  let ?sk = "snd (update ?u p5_setup)"
  let ?C = "\<lparr>re = exp 2 / sqrt 2, im = exp 2 / sqrt 2\<rparr> :: Complex_t"
  let ?O = "\<lparr>re = 0, im = 0\<rparr> :: Complex_t"
  have a: "\<not> reset_u ?u" by simp
  have c: "hsb_u ?u = Some ?c" by simp
  have "appState ?sk = appState (snd (setState ?u p5_setup))"
    by (simp only: update_frame)
  then have st: "appState ?sk =
      \<lparr>maxIters = 400, escapeRadius = 3, escapeColoring = False,
       zoomX = - 5 / 2, zoomY = 5 / 2, hsb = \<lparr>h = 0, s = 0, b = 0\<rparr>,
       isJulia = Some True, juliaConstant = Some (exp 2 / sqrt 2), reset = False\<rparr>"
    by (simp add: setState_appState [OF a c] bitor0_examples p5_setup_simps defaultState_def)
  have "FIELD ?sk = FIELD (snd (setState ?u p5_setup))"
    by (simp only: update_frame)
  then have fl: "FIELD ?sk = createComplexPlane (- 5 / 2) (5 / 2)"
    by (simp add: setState_FIELD [OF a] bitor0_examples p5_setup_simps defaultState_def)
  have smp: "FIELD ?sk ! 256 ! 256 = ?O"
    by (simp add: fl createComplexPlane_nth WIDTH_def HEIGHT_def Complex_of_def scale_def
        p5_map_def)
  have m0: "modulus ?O = 0" by (simp add: modulus_def modulusSquared_def)
  have "modulusSquared ?C = (exp 2)\<^sup>2"
    by (simp add: modulusSquared_def power2_eq_square)
  then have mC: "modulus ?C = exp 2" by (simp add: modulus_def)
  have big: "\<not> exp (2::real) < 3"
    using exp_ge_add_one_self [of "2::real"] by simp
  have stepO: "add (multiply ?O ?O) ?C = ?C" by (simp add: add_def multiply_def)
  have "whileLoop 3 400 ?C ?C (0 + 1) = (?C, 0 + 1)"
    using big by (subst whileLoop.simps) (simp add: mC)
  then have loop: "whileLoop 3 400 ?C ?O 0 = (?C, 1)"
    by (subst whileLoop.simps) (simp add: m0 stepO)
  have ev: "evaluate (appState ?sk) (juliaK (appState ?sk)) (FIELD ?sk ! 256 ! 256)
              = (Numeric ?C, 1)"
    by (simp add: smp st evaluate_def juliaK_def pixelConstant_def Complex_of_parts_def
        Complex_of_def loop)
  have one: "1 < exp (2::real)" by simp
  have "colorValueOf (appState ?sk) (Numeric ?C, 1) = Finite 0"
    by (simp add: colorValueOf_cases st mC one)
  with st smp ev show ?thesis by simp
qed

text \<open>
  C2, amended. On a field whose rows are at least as long as the field, the sweep ends
  without an error and yields one colour value per pixel, in scan order, and the render
  colours the pixels from these values. The value of a pixel is 0 when
  \<open>escapeColoring\<close> is set and the pixel's iteration count equals \<open>maxIters\<close> (the
  source's test for a point that did not escape). In every other case it is the count
  minus \<open>log(log(|Z|)) / log(2)\<close> at the final \<open>Z\<close> as JavaScript computes it: that
  real number when the modulus is above 1, \<open>Infinity\<close> when it is 1, and NaN when it
  is below 1 or \<open>Z\<close> is not numeric. That number can be 0 as well.
\<close>

theorem render_colorValues:
  assumes "\<forall>row\<in>set (FIELD sk). length (FIELD sk) \<le> length row"
  shows "outerLoop (appState sk) (juliaK (appState sk)) (FIELD sk)
           [0..<length (FIELD sk)] (length (FIELD sk)) ([], []) =
           Inr (map (\<lambda>(x, y). case evaluate (appState sk) (juliaK (appState sk)) (FIELD sk ! x ! y) of
                 (Zf, itr) \<Rightarrow>
                   if escapeColoring (appState sk) \<and> itr = maxIters (appState sk) then Finite 0
                   else (case Zf of
                           Numeric Z \<Rightarrow>
                             if 1 < modulus Z
                             then Finite (real_of_int itr - ln (ln (modulus Z)) / ln 2)
                             else if modulus Z = 1 then PosInfinity else NaN
                         | NotNumeric \<Rightarrow> NaN))
                    (List.product [0..<length (FIELD sk)] [0..<length (FIELD sk)]),
                map (\<lambda>(x, y). pixelIndex x y) (List.product [0..<length (FIELD sk)] [0..<length (FIELD sk)])) \<and>
         renderMandelbrotSet sk =
           (None, sk\<lparr>pixels :=
              colorLoop (hsb (appState sk))
                (zip (map (\<lambda>(x, y). case evaluate (appState sk) (juliaK (appState sk)) (FIELD sk ! x ! y) of
                 (Zf, itr) \<Rightarrow>
                   if escapeColoring (appState sk) \<and> itr = maxIters (appState sk) then Finite 0
                   else (case Zf of
                           Numeric Z \<Rightarrow>
                             if 1 < modulus Z
                             then Finite (real_of_int itr - ln (ln (modulus Z)) / ln 2)
                             else if modulus Z = 1 then PosInfinity else NaN
                         | NotNumeric \<Rightarrow> NaN))
                          (List.product [0..<length (FIELD sk)] [0..<length (FIELD sk)]))
                     (map (\<lambda>(x, y). pixelIndex x y) (List.product [0..<length (FIELD sk)] [0..<length (FIELD sk)])))
                (pixels sk)\<rparr>)"
proof -
  have cv: "colorValueOf (appState sk) r =
              (case r of
                 (Zf, itr) \<Rightarrow>
                   if escapeColoring (appState sk) \<and> itr = maxIters (appState sk) then Finite 0
                   else (case Zf of
                           Numeric Z \<Rightarrow>
                             if 1 < modulus Z
                             then Finite (real_of_int itr - ln (ln (modulus Z)) / ln 2)
                             else if modulus Z = 1 then PosInfinity else NaN
                         | NotNumeric \<Rightarrow> NaN))" for r
    by (cases r) (simp only: colorValueOf_cases prod.case)
  have sweep: "outerLoop (appState sk) (juliaK (appState sk)) (FIELD sk)
           [0..<length (FIELD sk)] (length (FIELD sk)) ([], []) =
           Inr (map (\<lambda>(x, y). colorValueOf (appState sk)
                                 (evaluate (appState sk) (juliaK (appState sk))
                                    (FIELD sk ! x ! y)))
                    (List.product [0..<length (FIELD sk)] [0..<length (FIELD sk)]),
                map (\<lambda>(x, y). pixelIndex x y) (List.product [0..<length (FIELD sk)] [0..<length (FIELD sk)]))"
    by (simp add: outerLoop_Inr [OF square_rows [OF assms]])
  show ?thesis
    by (simp only: sweep renderMandelbrotSet_sweep [OF assms] cv)
qed


theorem render_colorValues_witness:
  "outerLoop defaultState None [[\<lparr>re = 10, im = 10\<rparr>]] [0..<1] 1 ([], []) =
     Inr ([Finite (1 - ln (ln (modulus \<lparr>re = 10, im = 210\<rparr>)) / ln 2)], [0]) \<and>
   fst (renderMandelbrotSet
          \<lparr>appState = defaultState, FIELD = [[\<lparr>re = 10, im = 10\<rparr>]],
           pixels = [0, 0, 0, 0]\<rparr>) = None"
proof -
  let ?F = "[[\<lparr>re = 10, im = 10\<rparr>]] :: Complex_t list list"
  let ?sk = "\<lparr>appState = defaultState, FIELD = ?F, pixels = [0, 0, 0, 0]\<rparr>"
  have sq: "\<forall>row\<in>set (FIELD ?sk). length (FIELD ?sk) \<le> length row" by simp
  have sel: "appState ?sk = defaultState" "FIELD ?sk = ?F" by simp_all
  have K: "juliaK defaultState = None" by (simp add: juliaK_def defaultState_def)
  have l1: "length ?F = 1" by simp
  have p1: "List.product [0..<1] [0..<1] = [(0::nat, 0::nat)]" by simp
  have ev: "evaluate defaultState None (?F ! 0 ! 0) = (Numeric \<lparr>re = 10, im = 210\<rparr>, 1)"
    using whileLoop_10_10 [of 400]
    by (simp add: evaluate_def pixelConstant_def Complex_copy_def Complex_of_def defaultState_def)
  have above: "1 < modulus \<lparr>re = 10, im = 210\<rparr>"
    using outside_10_210 by simp
  have val: "(case evaluate defaultState None (?F ! 0 ! 0) of
                (Zf, itr) \<Rightarrow>
                  if escapeColoring defaultState \<and> itr = maxIters defaultState then Finite 0
                  else (case Zf of
                          Numeric Z \<Rightarrow>
                            if 1 < modulus Z
                            then Finite (real_of_int itr - ln (ln (modulus Z)) / ln 2)
                            else if modulus Z = 1 then PosInfinity else NaN
                        | NotNumeric \<Rightarrow> NaN))
             = Finite (1 - ln (ln (modulus \<lparr>re = 10, im = 210\<rparr>)) / ln 2)"
    using above by (simp only: ev) (simp add: defaultState_def)
  have px: "pixelIndex 0 0 = 0" by (simp add: pixelIndex_def wrap32_def)
  note inst = render_colorValues [OF sq]
  have sweep: "outerLoop defaultState None ?F [0..<1] 1 ([], []) =
          Inr ([Finite (1 - ln (ln (modulus \<lparr>re = 10, im = 210\<rparr>)) / ln 2)], [0])"
    using conjunct1 [OF inst]
    by (simp only: sel K l1 p1 list.map prod.case val px)
  have "fst (renderMandelbrotSet ?sk) = None"
    by (simp only: conjunct2 [OF inst] fst_conv)
  with sweep show ?thesis by (rule conjI)
qed

end
